theory Spec2Isabelle
  imports Complex_Main
begin

section \<open>Tensors and the tensor backend\<close>

text \<open>
  The cost and metric classes of \<open>neon/transforms/cost.py\<close> compute on two-dimensional
  tensors handed out by a backend object \<open>self.be\<close>. A tensor of shape \<open>(n, b)\<close> is a list
  of \<open>n\<close> rows of \<open>b\<close> numbers each: axis 0 runs over the rows (the output units or classes),
  axis 1 over the columns (the examples of a batch, \<open>b = be.bsz\<close>). Numbers are real
  numbers: rounding of the backend's machine numbers is not part of the model. A tensor
  without rows has no columns in this representation.
\<close>

type_synonym tensor = "real list list"

definition nrows :: "tensor \<Rightarrow> nat" where
  "nrows x = length x"

definition ncols :: "tensor \<Rightarrow> nat" where
  "ncols x = (case x of [] \<Rightarrow> 0 | r # _ \<Rightarrow> length r)"

definition col :: "tensor \<Rightarrow> nat \<Rightarrow> real list" where
  "col x j = map (\<lambda>r. r ! j) x"

definition rect :: "nat \<Rightarrow> nat \<Rightarrow> tensor \<Rightarrow> bool" where
  "rect n b x \<longleftrightarrow> length x = n \<and> list_all (\<lambda>r. length r = b) x"

text \<open>
  Modelled from the spec: the backend object \<open>self.be\<close> (class \<open>NervanaObject\<close> and the
  backend behind it are not part of the source file). The spec lists what the module
  uses of it: elementwise arithmetic and comparison, \<open>sum\<close>, \<open>mean\<close> and \<open>max\<close> along an
  axis, \<open>argmax\<close>, \<open>equal\<close>, \<open>not_equal\<close>, a safe logarithm that clamps its argument from
  below, and buffers \<open>iobuf\<close> as wide as the batch. The batch width and the clamping
  threshold of the logarithm are the two parameters of a backend.
\<close>

record backend =
  bsz :: nat
  log_floor :: real

definition b2r :: "bool \<Rightarrow> real" where
  "b2r p = (if p then 1 else 0)"

text \<open>Modelled from the spec: an operation applied to every entry (a scalar operand is
  part of the function).\<close>

definition ew :: "(real \<Rightarrow> real) \<Rightarrow> tensor \<Rightarrow> tensor" where
  "ew f x = map (map f) x"

text \<open>Modelled from the spec: a tensor with one row stands for as many equal rows as the
  other operand has.\<close>

definition rows_to :: "nat \<Rightarrow> tensor \<Rightarrow> tensor" where
  "rows_to n x = (if length x = 1 then replicate n (hd x) else x)"

text \<open>Modelled from the spec: an elementwise operation on two tensors.\<close>

definition ew2 :: "(real \<Rightarrow> real \<Rightarrow> real) \<Rightarrow> tensor \<Rightarrow> tensor \<Rightarrow> tensor" where
  "ew2 f x y =
     (let n = max (length x) (length y)
      in map2 (map2 f) (rows_to n x) (rows_to n y))"

text \<open>Modelled from the spec: \<open>be.safelog\<close>, the logarithm of the argument clamped from
  below.\<close>

definition safelog :: "backend \<Rightarrow> tensor \<Rightarrow> tensor" where
  "safelog be x = ew (\<lambda>v. ln (max v (log_floor be))) x"

text \<open>Modelled from the spec: \<open>be.sum(x, axis=0)\<close>, \<open>be.mean(x, axis=0)\<close> and
  \<open>be.max(x, axis=0)\<close>; the result has one row, and \<open>mean\<close> divides the sum by the extent
  of the axis.\<close>

definition be_sum :: "tensor \<Rightarrow> tensor" where
  "be_sum x = [map (\<lambda>j. sum_list (col x j)) [0..<ncols x]]"

definition be_mean :: "tensor \<Rightarrow> tensor" where
  "be_mean x = [map (\<lambda>j. sum_list (col x j) / real (nrows x)) [0..<ncols x]]"

definition be_max :: "tensor \<Rightarrow> tensor" where
  "be_max x = [map (\<lambda>j. Max (set (col x j))) [0..<ncols x]]"

definition be_square :: "tensor \<Rightarrow> tensor" where
  "be_square x = ew (\<lambda>v. v * v) x"

section \<open>Cost functions\<close>

subsection \<open>Cost (base class)\<close>

text \<open>
  \<open>Cost.__call__\<close> and \<open>Cost.bprop\<close> apply the instance attributes \<open>func\<close> and
  \<open>funcgrad\<close>. A method is a function from the object and its arguments to the returned
  value and the object after the call.
\<close>

record Cost =
  func :: "tensor \<Rightarrow> tensor \<Rightarrow> tensor"
  funcgrad :: "tensor \<Rightarrow> tensor \<Rightarrow> tensor"

definition Cost_call :: "Cost \<Rightarrow> tensor \<Rightarrow> tensor \<Rightarrow> tensor \<times> Cost" where
  "Cost_call self y t = (func self y t, self)"

definition Cost_bprop :: "Cost \<Rightarrow> tensor \<Rightarrow> tensor \<Rightarrow> tensor \<times> Cost" where
  "Cost_bprop self y t = (funcgrad self y t, self)"

subsection \<open>CrossEntropyBinary\<close>

record CrossEntropyBinary =
  scale :: real

definition CrossEntropyBinary_init :: "real \<Rightarrow> CrossEntropyBinary" where
  "CrossEntropyBinary_init sc = \<lparr>scale = sc\<rparr>"

text \<open>The default of the constructor's argument, \<open>scale=1\<close>.\<close>

definition CrossEntropyBinary_default :: CrossEntropyBinary where
  "CrossEntropyBinary_default = CrossEntropyBinary_init 1"

definition CrossEntropyBinary_call ::
  "backend \<Rightarrow> CrossEntropyBinary \<Rightarrow> tensor \<Rightarrow> tensor \<Rightarrow> tensor \<times> CrossEntropyBinary" where
  "CrossEntropyBinary_call be self y t =
     (let a = ew2 (*) (ew uminus (safelog be y)) t;
          b = ew2 (*) (ew uminus (safelog be (ew (\<lambda>v. 1 - v) y))) (ew (\<lambda>v. 1 - v) t)
      in (be_sum (ew2 (+) a b), self))"

definition CrossEntropyBinary_bprop ::
  "CrossEntropyBinary \<Rightarrow> tensor \<Rightarrow> tensor \<Rightarrow> tensor \<times> CrossEntropyBinary" where
  "CrossEntropyBinary_bprop self y t =
     (ew (\<lambda>v. CrossEntropyBinary.scale self * v) (ew2 (-) y t), self)"

subsection \<open>CrossEntropyMulti\<close>

record CrossEntropyMulti =
  scale :: real
  logscale :: real

definition CrossEntropyMulti_init :: "real \<Rightarrow> bool \<Rightarrow> CrossEntropyMulti" where
  "CrossEntropyMulti_init sc usebits =
     \<lparr>scale = sc, logscale = (if usebits then 1 / ln 2 else 1)\<rparr>"

definition CrossEntropyMulti_call ::
  "backend \<Rightarrow> CrossEntropyMulti \<Rightarrow> tensor \<Rightarrow> tensor \<Rightarrow> tensor \<times> CrossEntropyMulti" where
  "CrossEntropyMulti_call be self y t =
     (be_sum (ew2 (*) (ew (\<lambda>v. v * logscale self) (ew uminus t)) (safelog be y)), self)"

definition CrossEntropyMulti_bprop ::
  "CrossEntropyMulti \<Rightarrow> tensor \<Rightarrow> tensor \<Rightarrow> tensor \<times> CrossEntropyMulti" where
  "CrossEntropyMulti_bprop self y t =
     (ew (\<lambda>v. CrossEntropyMulti.scale self * v) (ew2 (-) y t), self)"

subsection \<open>SumSquared and MeanSquared\<close>

text \<open>Both constructors store two functions in the object; \<open>Cost.__call__\<close> and
  \<open>Cost.bprop\<close> apply them. \<open>y.shape[0]\<close> is the number of rows of \<open>y\<close>.\<close>

definition SumSquared_init :: Cost where
  "SumSquared_init =
     \<lparr>func = (\<lambda>y t. ew (\<lambda>v. v / 2) (be_sum (be_square (ew2 (-) y t)))),
      funcgrad = (\<lambda>y t. ew2 (-) y t)\<rparr>"

definition MeanSquared_init :: Cost where
  "MeanSquared_init =
     \<lparr>func = (\<lambda>y t. ew (\<lambda>v. v / 2) (be_mean (be_square (ew2 (-) y t)))),
      funcgrad = (\<lambda>y t. ew (\<lambda>v. v / real (nrows y)) (ew2 (-) y t))\<rparr>"

section \<open>Metrics\<close>

subsection \<open>Metric (base class)\<close>

datatype error = NotImplementedError

text \<open>\<open>Metric.__call__\<close> raises; \<open>Metric.bprop\<close> is \<open>pass\<close>: it returns \<open>None\<close> (the
  unit value) and the object as it was.\<close>

definition Metric_call :: "'self \<Rightarrow> tensor \<Rightarrow> tensor \<Rightarrow> error + (real \<times> 'self)" where
  "Metric_call self y t = Inl NotImplementedError"

definition Metric_bprop :: "'self \<Rightarrow> tensor \<Rightarrow> tensor \<Rightarrow> unit \<times> 'self" where
  "Metric_bprop self y t = ((), self)"

subsection \<open>Backend operations of the metrics\<close>

text \<open>Modelled from the spec: \<open>be.iobuf(m)\<close>, a buffer of \<open>m\<close> rows as wide as the batch.\<close>

definition iobuf :: "backend \<Rightarrow> nat \<Rightarrow> tensor" where
  "iobuf be m = replicate m (replicate (bsz be) 0)"

text \<open>Modelled from the spec: comparisons give 1 where they hold and 0 elsewhere.\<close>

definition be_gt :: "tensor \<Rightarrow> tensor \<Rightarrow> tensor" where
  "be_gt x y = ew2 (\<lambda>a b. b2r (b < a)) x y"

definition be_le :: "tensor \<Rightarrow> tensor \<Rightarrow> tensor" where
  "be_le x y = ew2 (\<lambda>a b. b2r (a \<le> b)) x y"

definition be_equal :: "tensor \<Rightarrow> tensor \<Rightarrow> tensor" where
  "be_equal x y = ew2 (\<lambda>a b. b2r (a = b)) x y"

definition be_not_equal :: "tensor \<Rightarrow> tensor \<Rightarrow> tensor" where
  "be_not_equal x y = ew2 (\<lambda>a b. b2r (a \<noteq> b)) x y"

text \<open>Modelled from the spec: \<open>be.argmax(x, axis=0)\<close>, for every column the index of its
  greatest entry (the first such index).\<close>

fun argmax_list :: "real list \<Rightarrow> nat" where
  "argmax_list [] = 0"
| "argmax_list (x # xs) = (if list_all (\<lambda>v. v \<le> x) xs then 0 else Suc (argmax_list xs))"

definition be_argmax :: "tensor \<Rightarrow> tensor" where
  "be_argmax x = [map (\<lambda>j. real (argmax_list (col x j))) [0..<ncols x]]"

text \<open>\<open>x.get().mean()\<close> is the mean of all entries, \<open>x.get().mean(axis=1)\<close> the mean of
  every row.\<close>

definition mean_all :: "tensor \<Rightarrow> real" where
  "mean_all x = sum_list (concat x) / real (length (concat x))"

definition mean_rows :: "tensor \<Rightarrow> real list" where
  "mean_rows x = map (\<lambda>r. sum_list r / real (length r)) x"

subsection \<open>TopKMisclassification\<close>

text \<open>Python's \<open>str(k)\<close> for an integer.\<close>

fun str_nat :: "nat \<Rightarrow> string" where
  "str_nat n =
     (if n < 10 then [char_of (48 + n)] else str_nat (n div 10) @ [char_of (48 + n mod 10)])"

definition str_int :: "int \<Rightarrow> string" where
  "str_int i = (if i < 0 then CHR ''-'' # str_nat (nat (- i)) else str_nat (nat i))"

text \<open>
  The object owns one buffer \<open>outputs\<close> of three rows. Its attributes \<open>correctProbs\<close>,
  \<open>top1\<close> and \<open>topk\<close> are views of the rows 0, 1 and 2 of that buffer, reshaped to
  \<open>(1, bsz)\<close>: reading a view reads the row, assigning to it writes the row.
\<close>

record TopKMisclassification =
  outputs :: tensor
  k :: int
  metric_names :: "string list"

definition TopKMisclassification_init :: "backend \<Rightarrow> int \<Rightarrow> TopKMisclassification" where
  "TopKMisclassification_init be kk =
     \<lparr>outputs = iobuf be 3, k = kk,
      metric_names = [''LogLoss'', ''Top1Misclass'', ''Top'' @ str_int kk @ ''Misclass'']\<rparr>"

definition view :: "nat \<Rightarrow> TopKMisclassification \<Rightarrow> tensor" where
  "view i self = [outputs self ! i]"

definition assign_view :: "nat \<Rightarrow> tensor \<Rightarrow> TopKMisclassification \<Rightarrow> TopKMisclassification" where
  "assign_view i v self = self\<lparr>outputs := (outputs self)[i := hd v]\<rparr>"

abbreviation correctProbs :: "TopKMisclassification \<Rightarrow> tensor" where
  "correctProbs \<equiv> view 0"

abbreviation top1 :: "TopKMisclassification \<Rightarrow> tensor" where
  "top1 \<equiv> view 1"

abbreviation topk :: "TopKMisclassification \<Rightarrow> tensor" where
  "topk \<equiv> view 2"

definition TopKMisclassification_call ::
  "backend \<Rightarrow> TopKMisclassification \<Rightarrow> tensor \<Rightarrow> tensor \<Rightarrow> real list \<times> TopKMisclassification" where
  "TopKMisclassification_call be self y t =
     (let s1 = assign_view 0 (be_sum (ew2 (*) y t)) self;
          nSlots = ew (\<lambda>v. real_of_int (k s1) - v) (be_sum (be_gt y (correctProbs s1)));
          nEq = be_sum (be_equal y (correctProbs s1));
          s2 = assign_view 2
                 (ew (\<lambda>v. 1 - v)
                    (ew2 (*) (ew (\<lambda>v. b2r (0 < v)) nSlots)
                       (ew2 (+) (ew2 (*) (be_le nEq nSlots) (ew (\<lambda>v. 1 - v) (ew2 (/) nSlots nEq)))
                          (ew2 (/) nSlots nEq)))) s1;
          s3 = assign_view 1
                 (ew (\<lambda>v. 1 - v) (ew2 (/) (be_equal (be_max y) (correctProbs s2)) nEq)) s2;
          s4 = assign_view 0 (ew uminus (safelog be (correctProbs s3))) s3
      in (mean_rows (outputs s4), s4))"

subsection \<open>Misclassification and Accuracy\<close>

text \<open>In both classes the attribute \<open>outputs\<close> is another name of the buffer \<open>preds\<close>
  (\<open>self.outputs = self.preds\<close>): the object has the two buffers \<open>preds\<close> and \<open>hyps\<close>, and
  what is assigned to \<open>outputs\<close> is written to \<open>preds\<close>.\<close>

record Misclassification =
  preds :: tensor
  hyps :: tensor
  metric_names :: "string list"

definition Misclassification_init :: "backend \<Rightarrow> Misclassification" where
  "Misclassification_init be =
     \<lparr>preds = iobuf be 1, hyps = iobuf be 1, metric_names = [''Top1Misclass'']\<rparr>"

definition Misclassification_outputs :: "Misclassification \<Rightarrow> tensor" where
  "Misclassification_outputs self = Misclassification.preds self"

definition Misclassification_call ::
  "Misclassification \<Rightarrow> tensor \<Rightarrow> tensor \<Rightarrow> real \<times> Misclassification" where
  "Misclassification_call self y t =
     (let s1 = self\<lparr>Misclassification.preds := be_argmax y\<rparr>;
          s2 = s1\<lparr>Misclassification.hyps := be_argmax t\<rparr>;
          s3 = s2\<lparr>Misclassification.preds :=
                    be_not_equal (Misclassification.preds s2) (Misclassification.hyps s2)\<rparr>
      in (mean_all (Misclassification_outputs s3), s3))"

record Accuracy =
  preds :: tensor
  hyps :: tensor
  metric_names :: "string list"

definition Accuracy_init :: "backend \<Rightarrow> Accuracy" where
  "Accuracy_init be =
     \<lparr>preds = iobuf be 1, hyps = iobuf be 1, metric_names = [''Accuracy'']\<rparr>"

definition Accuracy_outputs :: "Accuracy \<Rightarrow> tensor" where
  "Accuracy_outputs self = Accuracy.preds self"

definition Accuracy_call :: "Accuracy \<Rightarrow> tensor \<Rightarrow> tensor \<Rightarrow> real \<times> Accuracy" where
  "Accuracy_call self y t =
     (let s1 = self\<lparr>Accuracy.preds := be_argmax y\<rparr>;
          s2 = s1\<lparr>Accuracy.hyps := be_argmax t\<rparr>;
          s3 = s2\<lparr>Accuracy.preds := be_equal (Accuracy.preds s2) (Accuracy.hyps s2)\<rparr>
      in (mean_all (Accuracy_outputs s3), s3))"

section \<open>The claims of the specification in its own words\<close>

text \<open>The specification describes the loss of \<open>MeanSquared\<close> as that of \<open>SumSquared\<close>
  divided by the batch size, the number of examples (columns) of the batch, and its
  gradient as \<open>(y - t) / batch_size\<close>.\<close>

definition MeanSquared_spec_loss :: "tensor \<Rightarrow> tensor \<Rightarrow> tensor" where
  "MeanSquared_spec_loss y t =
     ew (\<lambda>v. v / real (ncols y)) (ew (\<lambda>v. v / 2) (be_sum (be_square (ew2 (-) y t))))"

definition MeanSquared_spec_grad :: "tensor \<Rightarrow> tensor \<Rightarrow> tensor" where
  "MeanSquared_spec_grad y t = ew (\<lambda>v. v / real (ncols y)) (ew2 (-) y t)"

text \<open>A one-hot column has the entry 1 in the row of the correct class \<open>c\<close> and 0 in
  every other row; a one-hot tensor has one-hot columns.\<close>

definition onehot_at :: "nat \<Rightarrow> real list \<Rightarrow> bool" where
  "onehot_at c tc \<longleftrightarrow> c < length tc \<and> tc = (replicate (length tc) 0)[c := 1]"

definition onehot :: "real list \<Rightarrow> bool" where
  "onehot tc \<longleftrightarrow> list_ex (\<lambda>c. onehot_at c tc) [0..<length tc]"

definition onehot_tensor :: "tensor \<Rightarrow> bool" where
  "onehot_tensor t \<longleftrightarrow> list_all (\<lambda>j. onehot (col t j)) [0..<ncols t]"

text \<open>What \<open>TopKMisclassification.__call__\<close> computes for one example, from the column
  \<open>yc\<close> of the predictions and the probability \<open>p\<close> of the correct class: the same
  expressions as in the method, on the entries of one column.\<close>

definition col_correctProb :: "real list \<Rightarrow> real list \<Rightarrow> real" where
  "col_correctProb yc tc = sum_list (map2 (*) yc tc)"

definition col_nSlots :: "int \<Rightarrow> real list \<Rightarrow> real \<Rightarrow> real" where
  "col_nSlots kk yc p = real_of_int kk - sum_list (map (\<lambda>v. b2r (p < v)) yc)"

definition col_nEq :: "real list \<Rightarrow> real \<Rightarrow> real" where
  "col_nEq yc p = sum_list (map (\<lambda>v. b2r (v = p)) yc)"

definition col_topk :: "int \<Rightarrow> real list \<Rightarrow> real \<Rightarrow> real" where
  "col_topk kk yc p =
     1 - b2r (0 < col_nSlots kk yc p)
           * (b2r (col_nEq yc p \<le> col_nSlots kk yc p) * (1 - col_nSlots kk yc p / col_nEq yc p)
              + col_nSlots kk yc p / col_nEq yc p)"

definition col_top1 :: "real list \<Rightarrow> real \<Rightarrow> real" where
  "col_top1 yc p = 1 - b2r (Max (set yc) = p) / col_nEq yc p"

text \<open>The two numbers of the tie handling as the claims describe them, for a column \<open>yc\<close>
  whose correct class is row \<open>c\<close>: \<open>k\<close> minus the number of classes with a probability
  strictly greater than that of the correct class, and the number of classes with a
  probability equal to it.\<close>

definition nSlots_of :: "int \<Rightarrow> real list \<Rightarrow> nat \<Rightarrow> int" where
  "nSlots_of kk yc c = kk - int (length (filter (\<lambda>v. yc ! c < v) yc))"

definition nEq_of :: "real list \<Rightarrow> nat \<Rightarrow> nat" where
  "nEq_of yc c = length (filter (\<lambda>v. v = yc ! c) yc)"

section \<open>Properties of the backend operations\<close>


lemma rect_ncols: "rect n b x \<Longrightarrow> 0 < n \<Longrightarrow> ncols x = b"
  by (cases x) (auto simp: rect_def ncols_def)

lemma rect_row_length: "rect n b x \<Longrightarrow> r \<in> set x \<Longrightarrow> length r = b"
  by (auto simp: rect_def list_all_iff)

lemma length_col [simp]: "length (col x j) = length x"
  by (simp add: col_def)

lemma ew_rect: "rect n b x \<Longrightarrow> rect n b (ew f x)"
  by (auto simp: rect_def ew_def list_all_iff)

lemma col_ew: "col (ew f x) j = map f (col x j)" if "rect n b x" "j < b"
  using that by (auto simp: col_def ew_def rect_def list_all_iff)

lemma rows_to_same: "rows_to (length x) x = x"
  by (cases x) (auto simp: rows_to_def)

lemma ew2_same: "length x = length y \<Longrightarrow> ew2 f x y = map2 (map2 f) x y"
  by (simp add: ew2_def rows_to_same) (metis rows_to_same)

lemma ew2_rect: "rect n b x \<Longrightarrow> rect n b y \<Longrightarrow> rect n b (ew2 f x y)"
proof -
  assume a: "rect n b x" "rect n b y"
  have "length (map2 f r1 r2) = b" if "(r1, r2) \<in> set (zip x y)" for r1 r2
  proof -
    have "r1 \<in> set x" "r2 \<in> set y"
      using that by (auto dest: set_zip_leftD set_zip_rightD)
    then show ?thesis using a by (simp add: rect_def list_all_iff)
  qed
  then show ?thesis
    using a by (auto simp: ew2_same rect_def list_all_iff)
qed

lemma col_ew2: "rect n b x \<Longrightarrow> rect n b y \<Longrightarrow> j < b \<Longrightarrow> col (ew2 f x y) j = map2 f (col x j) (col y j)"
  apply (simp add: ew2_same rect_def col_def list_all_iff)
  apply (rule nth_equalityI)
   apply simp
  apply (simp)
  done

lemma ew2_bcast: "ew2 f x [r] = map (\<lambda>row. map2 f row r) x"
proof (cases "length x = 1")
  case True
  then obtain a where "x = [a]" by (cases x) auto
  then show ?thesis by (simp add: ew2_def rows_to_def)
next
  case False
  have "map2 (map2 f) x (replicate (length x) r) = map (\<lambda>row. map2 f row r) x"
    by (induction x) auto
  moreover have "max (length x) (Suc 0) = length x \<or> x = []" by (cases x) auto
  ultimately show ?thesis using False by (auto simp add: ew2_def rows_to_def)
qed

lemma col_ew2_bcast: "rect n b x \<Longrightarrow> length r = b \<Longrightarrow> j < b \<Longrightarrow>
   col (ew2 f x [r]) j = map (\<lambda>v. f v (r ! j)) (col x j)"
  by (auto simp: ew2_bcast col_def rect_def list_all_iff)

lemma ncols_ew2_bcast: "rect n b x \<Longrightarrow> 0 < n \<Longrightarrow> length r = b \<Longrightarrow> ncols (ew2 f x [r]) = b"
  by (cases x) (auto simp: ew2_bcast ncols_def rect_def)

lemma ew_row: "ew f [map g js] = [map (\<lambda>j. f (g j)) js]"
  by (simp add: ew_def)

lemma ew2_row: "ew2 f [map g js] [map h js] = [map (\<lambda>j. f (g j) (h j)) js]"
  by (simp add: ew2_def rows_to_def zip_map_map) (simp add: zip_same_conv_map)

lemma be_sum_rect: "rect n b x \<Longrightarrow> 0 < n \<Longrightarrow> be_sum x = [map (\<lambda>j. sum_list (col x j)) [0..<b]]"
  by (simp add: be_sum_def rect_ncols)


lemma be_mean_rect: "rect n b x \<Longrightarrow> 0 < n \<Longrightarrow> be_mean x = [map (\<lambda>j. sum_list (col x j) / real n) [0..<b]]"
  using rect_ncols [of n b x] by (simp add: be_mean_def nrows_def rect_def)

lemma be_square_rect: "rect n b x \<Longrightarrow> rect n b (be_square x)"
  by (simp add: be_square_def ew_rect)

section \<open>CrossEntropyBinary: the worked example\<close>

text \<open>The worked example does not give the loss \<open>-ln 0.7\<close>.\<close>

theorem CrossEntropyBinary_example_refuted:
  "fst (CrossEntropyBinary_call \<lparr>bsz = 1, log_floor = 1 / 1000000\<rparr> CrossEntropyBinary_default
          [[7 / 10], [3 / 10]] [[1], [0]]) \<noteq> [[- ln (7 / 10)]]"
  by (simp add: CrossEntropyBinary_call_def safelog_def ew_def ew2_def rows_to_def be_sum_def
      ncols_def col_def)

text \<open>
  C1 (as amended). For \<open>y = [[0.7], [0.3]]\<close> and \<open>t = [[1], [0]]\<close> and the default
  \<open>scale = 1\<close>, \<open>CrossEntropyBinary.__call__\<close> returns the loss \<open>-2 ln 0.7\<close>: the first row
  adds \<open>-ln 0.7\<close> through \<open>-safelog(y) * t\<close>, the second adds \<open>-ln (1 - 0.3)\<close> through
  \<open>-safelog(1 - y) * (1 - t)\<close>. \<open>bprop\<close> returns \<open>[[0.7 - 1], [0.3]]\<close>.
\<close>

theorem CrossEntropyBinary_example:
  assumes "0 < log_floor be" and "log_floor be \<le> 7 / 10"
  shows "fst (CrossEntropyBinary_call be CrossEntropyBinary_default [[7 / 10], [3 / 10]] [[1], [0]])
           = [[- 2 * ln (7 / 10)]]
       \<and> fst (CrossEntropyBinary_bprop CrossEntropyBinary_default [[7 / 10], [3 / 10]] [[1], [0]])
           = [[7 / 10 - 1], [3 / 10]]"
  using assms
  by (simp add: CrossEntropyBinary_call_def CrossEntropyBinary_bprop_def
      CrossEntropyBinary_default_def CrossEntropyBinary_init_def safelog_def ew_def ew2_def
      rows_to_def be_sum_def ncols_def col_def max_def)

theorem CrossEntropyBinary_example_witness:
  "fst (CrossEntropyBinary_call \<lparr>bsz = 1, log_floor = 1 / 1000000\<rparr> CrossEntropyBinary_default
          [[7 / 10], [3 / 10]] [[1], [0]]) = [[- 2 * ln (7 / 10)]]
   \<and> fst (CrossEntropyBinary_bprop CrossEntropyBinary_default [[7 / 10], [3 / 10]] [[1], [0]])
       = [[7 / 10 - 1], [3 / 10]]"
  using CrossEntropyBinary_example [of "\<lparr>bsz = 1, log_floor = 1 / 1000000\<rparr>"] by simp

section \<open>MeanSquared\<close>

text \<open>On a batch of two examples with one row, \<open>MeanSquared\<close> divides by one, not by
  two.\<close>

theorem MeanSquared_batch_size_refuted:
  "fst (Cost_call MeanSquared_init [[1, 3]] [[0, 0]]) \<noteq> MeanSquared_spec_loss [[1, 3]] [[0, 0]]
   \<and> fst (Cost_bprop MeanSquared_init [[1, 3]] [[0, 0]]) \<noteq> MeanSquared_spec_grad [[1, 3]] [[0, 0]]"
  by (simp add: Cost_call_def Cost_bprop_def MeanSquared_init_def MeanSquared_spec_loss_def
      MeanSquared_spec_grad_def be_mean_def be_sum_def be_square_def ew_def ew2_def rows_to_def
      ncols_def nrows_def col_def)

text \<open>
  C2 (as amended). For \<open>y\<close> and \<open>t\<close> of the same shape \<open>(n, b)\<close>, \<open>MeanSquared.__call__\<close>
  returns \<open>sum(square(y - t), axis=0) / 2\<close> divided by \<open>n = y.shape[0]\<close>, the number of rows,
  and \<open>MeanSquared.bprop\<close> returns \<open>(y - t) / n\<close>.
\<close>

theorem MeanSquared_rows:
  assumes "rect n b y" and "rect n b t" and "0 < n"
  shows "fst (Cost_call MeanSquared_init y t)
           = ew (\<lambda>v. v / real n) (ew (\<lambda>v. v / 2) (be_sum (be_square (ew2 (-) y t))))
       \<and> fst (Cost_bprop MeanSquared_init y t) = ew (\<lambda>v. v / real n) (ew2 (-) y t)"
proof -
  have r: "rect n b (be_square (ew2 (-) y t))"
    using assms by (simp add: be_square_rect ew2_rect)
  have "length y = n" using assms by (simp add: rect_def)
  then show ?thesis
    using assms
    by (simp add: Cost_call_def Cost_bprop_def MeanSquared_init_def be_mean_rect [OF r]
        be_sum_rect [OF r] ew_row nrows_def)
qed

text \<open>On two rows and three columns the squared differences add up to \<open>[5, 4, 4]\<close>;
  half of that divided by the two rows is \<open>[5/4, 1, 1]\<close>, and the gradient is
  \<open>(y - t) / 2\<close>.\<close>

theorem MeanSquared_rows_witness:
  "fst (Cost_call MeanSquared_init [[1, 3, 0], [2, 5, 1]] [[0, 1, 0], [4, 5, 3]])
     = [[5 / 4, 1, 1]]
   \<and> fst (Cost_bprop MeanSquared_init [[1, 3, 0], [2, 5, 1]] [[0, 1, 0], [4, 5, 3]])
     = [[1 / 2, 1, 0], [- 1, 0, - 1]]"
  using MeanSquared_rows [of 2 3 "[[1, 3, 0], [2, 5, 1]]" "[[0, 1, 0], [4, 5, 3]]"]
  by (simp add: rect_def be_sum_def be_square_def ew_def ew2_def rows_to_def ncols_def col_def)

section \<open>The Metric base class\<close>

text \<open>
  C8. \<open>Metric.__call__\<close> raises \<open>NotImplementedError\<close> for every input, and \<open>Metric.bprop\<close>
  returns nothing and leaves the object as it was.
\<close>

theorem Metric_base:
  "Metric_call self y t = Inl NotImplementedError \<and> Metric_bprop self y t = ((), self)"
  by (simp add: Metric_call_def Metric_bprop_def)

section \<open>Cost objects are not changed by their methods\<close>

text \<open>
  C9. \<open>__call__\<close> and \<open>bprop\<close> of \<open>CrossEntropyBinary\<close>, \<open>CrossEntropyMulti\<close>, \<open>SumSquared\<close>
  and \<open>MeanSquared\<close> return the object with all its fields (\<open>scale\<close>, \<open>logscale\<close>, \<open>func\<close>,
  \<open>funcgrad\<close>) as they were, so a second call with the same inputs returns the same
  result.
\<close>

theorem Cost_frame:
  "snd (CrossEntropyBinary_call be ceb y t) = ceb
   \<and> snd (CrossEntropyBinary_bprop ceb y t) = ceb
   \<and> snd (CrossEntropyMulti_call be cem y t) = cem
   \<and> snd (CrossEntropyMulti_bprop cem y t) = cem
   \<and> snd (Cost_call c y t) = c
   \<and> snd (Cost_bprop c y t) = c
   \<and> fst (CrossEntropyBinary_call be (snd (CrossEntropyBinary_call be ceb y t)) y t)
       = fst (CrossEntropyBinary_call be ceb y t)
   \<and> fst (CrossEntropyBinary_bprop (snd (CrossEntropyBinary_bprop ceb y t)) y t)
       = fst (CrossEntropyBinary_bprop ceb y t)
   \<and> fst (CrossEntropyMulti_call be (snd (CrossEntropyMulti_call be cem y t)) y t)
       = fst (CrossEntropyMulti_call be cem y t)
   \<and> fst (CrossEntropyMulti_bprop (snd (CrossEntropyMulti_bprop cem y t)) y t)
       = fst (CrossEntropyMulti_bprop cem y t)
   \<and> fst (Cost_call (snd (Cost_call c y t)) y t) = fst (Cost_call c y t)
   \<and> fst (Cost_bprop (snd (Cost_bprop c y t)) y t) = fst (Cost_bprop c y t)"
  by (simp add: CrossEntropyBinary_call_def CrossEntropyBinary_bprop_def CrossEntropyMulti_call_def
      CrossEntropyMulti_bprop_def Cost_call_def Cost_bprop_def Let_def)

section \<open>Cross entropy losses are non-negative\<close>

lemma mem_col: "rect n b x \<Longrightarrow> j < b \<Longrightarrow> v \<in> set (col x j) \<Longrightarrow> v \<in> set (concat x)"
proof -
  assume a: "rect n b x" "j < b" "v \<in> set (col x j)"
  then obtain r where r: "r \<in> set x" "v = r ! j" by (auto simp: col_def)
  then have "length r = b" using a by (simp add: rect_def list_all_iff)
  then have "v \<in> set r" using r a by simp
  then show ?thesis using r by auto
qed

lemma sum_list_map2_nonneg:
  "(\<And>a c. a \<in> set xs \<Longrightarrow> c \<in> set ys \<Longrightarrow> 0 \<le> f a c) \<Longrightarrow> (0::real) \<le> sum_list (map2 f xs ys)"
  by (rule sum_list_nonneg) (auto dest: set_zip_leftD set_zip_rightD)

lemma safelog_rect: "rect n b x \<Longrightarrow> rect n b (safelog be x)"
  by (simp add: safelog_def ew_rect)

lemma col_safelog: "rect n b x \<Longrightarrow> j < b \<Longrightarrow> col (safelog be x) j = map (\<lambda>v. ln (max v (log_floor be))) (col x j)"
  by (simp add: safelog_def col_ew)

lemma CrossEntropyBinary_loss_col:
  assumes "rect n b y" "rect n b t" "0 < n"
  shows "fst (CrossEntropyBinary_call be self y t) =
    [map (\<lambda>j. sum_list (map2 (\<lambda>p q. - ln (max p (log_floor be)) * q
                + - ln (max (1 - p) (log_floor be)) * (1 - q)) (col y j) (col t j))) [0..<b]]"
proof -
  let ?a = "ew2 (*) (ew uminus (safelog be y)) t"
  let ?b = "ew2 (*) (ew uminus (safelog be (ew (\<lambda>v. 1 - v) y))) (ew (\<lambda>v. 1 - v) t)"
  have ra: "rect n b ?a" using assms by (simp add: ew2_rect ew_rect safelog_rect)
  have rb: "rect n b ?b" using assms by (simp add: ew2_rect ew_rect safelog_rect)
  have rs: "rect n b (ew2 (+) ?a ?b)" using ra rb by (rule ew2_rect)
  have c: "col (ew2 (+) ?a ?b) j = map2 (\<lambda>p q. - ln (max p (log_floor be)) * q
                + - ln (max (1 - p) (log_floor be)) * (1 - q)) (col y j) (col t j)" if "j < b" for j
  proof -
    have 1: "col ?a j = map2 (\<lambda>p q. - ln (max p (log_floor be)) * q) (col y j) (col t j)"
      using assms that
      by (simp add: col_ew2 [where n = n and b = b] col_ew [where n = n and b = b] ew_rect safelog_rect col_safelog [where n = n and b = b]
          zip_map1 split_def)
    have 2: "col ?b j = map2 (\<lambda>p q. - ln (max (1 - p) (log_floor be)) * (1 - q)) (col y j) (col t j)"
      using assms that
      by (simp add: col_ew2 [where n = n and b = b] col_ew [where n = n and b = b] ew_rect safelog_rect col_safelog [where n = n and b = b]
          zip_map1 zip_map2 split_def)
    have l: "length (col y j) = length (col t j)" using assms by (simp add: rect_def)
    show ?thesis
      unfolding col_ew2 [OF ra rb that] 1 2
      using l by (intro nth_equalityI) simp_all
  qed
  show ?thesis
    using c by (simp add: CrossEntropyBinary_call_def Let_def be_sum_rect [OF rs assms(3)])
qed

lemma CrossEntropyMulti_loss_col:
  assumes "rect n b y" "rect n b t" "0 < n"
  shows "fst (CrossEntropyMulti_call be self y t) =
    [map (\<lambda>j. sum_list (map2 (\<lambda>p q. - q * logscale self * ln (max p (log_floor be)))
           (col y j) (col t j))) [0..<b]]"
proof -
  let ?a = "ew2 (*) (ew (\<lambda>v. v * logscale self) (ew uminus t)) (safelog be y)"
  have ra: "rect n b ?a" using assms by (simp add: ew2_rect ew_rect safelog_rect)
  have c: "col ?a j = map2 (\<lambda>p q. - q * logscale self * ln (max p (log_floor be))) (col y j) (col t j)"
    if "j < b" for j
  proof -
    have l: "length (col y j) = length (col t j)" using assms by (simp add: rect_def)
    have "col ?a j = map2 (*) (map (\<lambda>q. - q * logscale self) (col t j))
                       (map (\<lambda>p. ln (max p (log_floor be))) (col y j))"
      using assms that
      by (simp add: col_ew2 [where n = n and b = b] col_ew [where n = n and b = b] ew_rect safelog_rect col_safelog [where n = n and b = b]
          comp_def)
    also have "\<dots> = map2 (\<lambda>p q. - q * logscale self * ln (max p (log_floor be))) (col y j) (col t j)"
      using l by (intro nth_equalityI) simp_all
    finally show ?thesis .
  qed
  show ?thesis
    using c by (simp add: CrossEntropyMulti_call_def be_sum_rect [OF ra assms(3)])
qed

text \<open>
  C6. For tensors \<open>y\<close> and \<open>t\<close> of the same shape with all entries in \<open>(0, 1]\<close>, every
  component of the loss returned by \<open>CrossEntropyBinary.__call__\<close> and by
  \<open>CrossEntropyMulti.__call__\<close> (with or without \<open>usebits\<close>) is non-negative. The safe
  logarithm clamps at a threshold in \<open>(0, 1]\<close>.
\<close>

theorem CrossEntropy_nonneg:
  assumes "rect n b y" and "rect n b t" and "0 < n"
    and y: "\<forall>v \<in> set (concat y). 0 < v \<and> v \<le> 1"
    and t: "\<forall>v \<in> set (concat t). 0 < v \<and> v \<le> 1"
    and f: "0 < log_floor be" "log_floor be \<le> 1"
  shows "rect 1 b (fst (CrossEntropyBinary_call be ceb y t))
       \<and> (\<forall>v \<in> set (concat (fst (CrossEntropyBinary_call be ceb y t))). 0 \<le> v)
       \<and> rect 1 b (fst (CrossEntropyMulti_call be (CrossEntropyMulti_init sc usebits) y t))
       \<and> (\<forall>v \<in> set (concat (fst (CrossEntropyMulti_call be
               (CrossEntropyMulti_init sc usebits) y t))). 0 \<le> v)"
proof -
  have lg: "ln (max p (log_floor be)) \<le> 0" if "p \<le> 1" for p
    using that f by (simp add: max_def)
  have ls: "0 < logscale (CrossEntropyMulti_init sc usebits)"
    by (simp add: CrossEntropyMulti_init_def)
  have b: "0 \<le> sum_list (map2 (\<lambda>p q. - ln (max p (log_floor be)) * q
                + - ln (max (1 - p) (log_floor be)) * (1 - q)) (col y j) (col t j))" if "j < b" for j
  proof (rule sum_list_map2_nonneg)
    fix p q assume "p \<in> set (col y j)" "q \<in> set (col t j)"
    then have "0 < p \<and> p \<le> 1" "0 < q \<and> q \<le> 1"
      using y t mem_col [OF assms(1) that] mem_col [OF assms(2) that] by blast+
    then show "0 \<le> - ln (max p (log_floor be)) * q + - ln (max (1 - p) (log_floor be)) * (1 - q)"
      using lg [of p] lg [of "1 - p"] by (intro add_nonneg_nonneg mult_nonneg_nonneg) simp_all
  qed
  have m: "0 \<le> sum_list (map2 (\<lambda>p q. - q * logscale (CrossEntropyMulti_init sc usebits)
      * ln (max p (log_floor be))) (col y j) (col t j))" if "j < b" for j
  proof (rule sum_list_map2_nonneg)
    fix p q assume "p \<in> set (col y j)" "q \<in> set (col t j)"
    then have "0 < p \<and> p \<le> 1" "0 < q \<and> q \<le> 1"
      using y t mem_col [OF assms(1) that] mem_col [OF assms(2) that] by blast+
    then show "0 \<le> - q * logscale (CrossEntropyMulti_init sc usebits) * ln (max p (log_floor be))"
      using lg [of p] ls by (intro mult_nonpos_nonpos) (simp_all add: less_imp_le)
  qed
  show ?thesis
    using b m
    by (simp add: CrossEntropyBinary_loss_col [OF assms(1,2,3)]
        CrossEntropyMulti_loss_col [OF assms(1,2,3)] rect_def)
qed

theorem CrossEntropy_nonneg_witness:
  "0 \<le> hd (fst (CrossEntropyBinary_call \<lparr>bsz = 2, log_floor = 1 / 1000000\<rparr>
        CrossEntropyBinary_default [[7 / 10, 1 / 5], [3 / 10, 1]] [[1, 1 / 2], [1 / 4, 1]])) ! 0
   \<and> 0 \<le> hd (fst (CrossEntropyBinary_call \<lparr>bsz = 2, log_floor = 1 / 1000000\<rparr>
        CrossEntropyBinary_default [[7 / 10, 1 / 5], [3 / 10, 1]] [[1, 1 / 2], [1 / 4, 1]])) ! 1
   \<and> 0 \<le> hd (fst (CrossEntropyMulti_call \<lparr>bsz = 2, log_floor = 1 / 1000000\<rparr>
        (CrossEntropyMulti_init 1 True) [[7 / 10, 1 / 5], [3 / 10, 1]] [[1, 1 / 2], [1 / 4, 1]])) ! 0
   \<and> 0 \<le> hd (fst (CrossEntropyMulti_call \<lparr>bsz = 2, log_floor = 1 / 1000000\<rparr>
        (CrossEntropyMulti_init 1 True) [[7 / 10, 1 / 5], [3 / 10, 1]] [[1, 1 / 2], [1 / 4, 1]])) ! 1"
proof -
  let ?be = "\<lparr>bsz = 2, log_floor = 1 / 1000000\<rparr>"
  let ?y = "[[7 / 10, 1 / 5], [3 / 10, 1 :: real]]"
  let ?t = "[[1, 1 / 2], [1 / 4, 1 :: real]]"
  have r: "rect 2 2 ?y" "rect 2 2 ?t" by (simp_all add: rect_def)
  have v: "\<forall>v \<in> set (concat ?y). 0 < v \<and> v \<le> 1" "\<forall>v \<in> set (concat ?t). 0 < v \<and> v \<le> 1"
    by simp_all
  have f: "0 < log_floor ?be" "log_floor ?be \<le> 1" by simp_all
  note w = CrossEntropy_nonneg [OF r _ v f, of CrossEntropyBinary_default 1 True]
  have b: "rect 1 2 (fst (CrossEntropyBinary_call ?be CrossEntropyBinary_default ?y ?t))"
    and m: "rect 1 2 (fst (CrossEntropyMulti_call ?be (CrossEntropyMulti_init 1 True) ?y ?t))"
    using w by simp_all
  have in_set: "hd x ! j \<in> set (concat x)" if "rect 1 2 x" "j < 2" for x :: tensor and j
    using that by (cases x) (auto simp: rect_def)
  have "(0::nat) < 2" "(1::nat) < 2" by simp_all
  then show ?thesis
    using w in_set [OF b] in_set [OF m] by blast
qed

section \<open>SumSquared: loss, gradient and derivative\<close>

lemma col_row_update:
  "i < length y \<Longrightarrow> j < length (y ! i) \<Longrightarrow> col (y[i := (y ! i)[j := v]]) j = (col y j)[i := v]"
  by (simp add: col_def map_update)

lemma col_row_update_other:
  "j' \<noteq> j \<Longrightarrow> col (y[i := (y ! i)[j := v]]) j' = col y j'"
proof (rule nth_equalityI)
  fix k assume "j' \<noteq> j" "k < length (col (y[i := (y ! i)[j := v]]) j')"
  then show "col (y[i := (y ! i)[j := v]]) j' ! k = col y j' ! k"
    by (cases "k = i") (simp_all add: col_def)
qed simp

lemma rect_row_update:
  "rect n b y \<Longrightarrow> i < n \<Longrightarrow> rect n b (y[i := (y ! i)[j := v]])"
  by (auto simp: rect_def list_all_iff dest!: set_update_subset_insert [THEN subsetD])

lemma sum_list_update_real:
  fixes xs :: "real list"
  shows "i < length xs \<Longrightarrow> sum_list (xs[i := v]) = sum_list xs - xs ! i + v"
  by (induction xs arbitrary: i) (auto split: nat.splits)

lemma sum_list_sq_update:
  fixes ys ts :: "real list"
  assumes "i < length ys" "length ts = length ys"
  shows "sum_list (map2 (\<lambda>a c. (a - c) * (a - c)) (ys[i := v]) ts)
       = sum_list (map2 (\<lambda>a c. (a - c) * (a - c)) ys ts)
         - (ys ! i - ts ! i) * (ys ! i - ts ! i) + (v - ts ! i) * (v - ts ! i)"
proof -
  have "zip (ys[i := v]) ts = (zip ys ts)[i := (v, ts ! i)]"
    using zip_update [of ys i v ts "ts ! i"] by simp
  then show ?thesis
    using assms by (simp add: map_update sum_list_update_real)
qed

lemma SumSquared_loss_col:
  assumes "rect n b y" "rect n b t" "0 < n"
  shows "fst (Cost_call SumSquared_init y t) =
    [map (\<lambda>j. sum_list (map2 (\<lambda>a c. (a - c) * (a - c)) (col y j) (col t j)) / 2) [0..<b]]"
proof -
  have r: "rect n b (ew2 (-) y t)" using assms by (simp add: ew2_rect)
  have r2: "rect n b (be_square (ew2 (-) y t))" using r by (rule be_square_rect)
  have c: "col (be_square (ew2 (-) y t)) j = map2 (\<lambda>a c. (a - c) * (a - c)) (col y j) (col t j)"
    if "j < b" for j
    using that assms r
    by (simp add: be_square_def col_ew [where n = n and b = b] col_ew2 [where n = n and b = b]
        split_def)
  show ?thesis
    using c by (simp add: Cost_call_def SumSquared_init_def be_sum_rect [OF r2 assms(3)] ew_row)
qed

text \<open>
  C7. For \<open>y\<close> and \<open>t\<close> of the same shape \<open>(n, b)\<close>, the loss of \<open>SumSquared\<close> is, for every
  column \<open>j\<close>, half the sum over the rows of the squared differences, and \<open>bprop\<close> returns
  \<open>y - t\<close>. The entry \<open>(i, j)\<close> of that gradient is the derivative of the loss of column \<open>j\<close>
  with respect to the entry \<open>(i, j)\<close> of \<open>y\<close>; the loss of every other column does not
  depend on that entry.
\<close>

theorem SumSquared_loss_gradient:
  assumes "rect n b y" and "rect n b t" and "i < n" and "j < b"
  shows "fst (Cost_call SumSquared_init y t)
           = [map (\<lambda>j. (\<Sum>i<n. (y ! i ! j - t ! i ! j)\<^sup>2) / 2) [0..<b]]
       \<and> fst (Cost_bprop SumSquared_init y t) ! i ! j = y ! i ! j - t ! i ! j
       \<and> ((\<lambda>v. hd (fst (Cost_call SumSquared_init (y[i := (y ! i)[j := v]]) t)) ! j)
            has_real_derivative fst (Cost_bprop SumSquared_init y t) ! i ! j) (at (y ! i ! j))
       \<and> (\<forall>j'<b. j' \<noteq> j \<longrightarrow>
            hd (fst (Cost_call SumSquared_init (y[i := (y ! i)[j := v]]) t)) ! j'
              = hd (fst (Cost_call SumSquared_init y t)) ! j')"
proof -
  have n: "0 < n" using assms by simp
  have ly: "length y = n" "length t = n" using assms by (simp_all add: rect_def)
  have lr: "length (y ! i) = b" "length (t ! i) = b"
    using assms ly by (simp_all add: rect_def list_all_length)
  have s: "sum_list (map2 (\<lambda>a c. (a - c) * (a - c)) (col y j') (col t j'))
         = (\<Sum>i<n. (y ! i ! j' - t ! i ! j')\<^sup>2)" for j'
    using ly by (simp add: sum_list_sum_nth col_def power2_eq_square atLeast0LessThan)
  have 1: "fst (Cost_call SumSquared_init y t)
           = [map (\<lambda>j. (\<Sum>i<n. (y ! i ! j - t ! i ! j)\<^sup>2) / 2) [0..<b]]"
    by (simp add: SumSquared_loss_col [OF assms(1,2) n] s)
  have 2: "fst (Cost_bprop SumSquared_init y t) ! i ! j = y ! i ! j - t ! i ! j"
    using assms ly lr by (simp add: Cost_bprop_def SumSquared_init_def ew2_same)
  have l: "hd (fst (Cost_call SumSquared_init (y[i := (y ! i)[j := v]]) t)) ! j
      = (sum_list (map2 (\<lambda>a c. (a - c) * (a - c)) (col y j) (col t j))
         - (y ! i ! j - t ! i ! j) * (y ! i ! j - t ! i ! j)
         + (v - t ! i ! j) * (v - t ! i ! j)) / 2" for v
    using assms ly lr
    by (simp add: SumSquared_loss_col [OF rect_row_update [OF assms(1,3)] assms(2) n]
        col_row_update sum_list_sq_update) (simp add: col_def)
  have 3: "((\<lambda>v. hd (fst (Cost_call SumSquared_init (y[i := (y ! i)[j := v]]) t)) ! j)
            has_real_derivative (y ! i ! j - t ! i ! j)) (at (y ! i ! j))"
    unfolding l by (auto intro!: derivative_eq_intros)
  have 4: "hd (fst (Cost_call SumSquared_init (y[i := (y ! i)[j := v]]) t)) ! j'
              = hd (fst (Cost_call SumSquared_init y t)) ! j'" if "j' < b" "j' \<noteq> j" for j'
    using that
    by (simp add: SumSquared_loss_col [OF rect_row_update [OF assms(1,3)] assms(2) n]
        SumSquared_loss_col [OF assms(1,2) n] col_row_update_other)
  show ?thesis using 1 2 3 4 by simp
qed

theorem SumSquared_loss_gradient_witness:
  "fst (Cost_call SumSquared_init [[1, 3], [2, 5]] [[0, 1], [4, 5]]) = [[5 / 2, 2]]
   \<and> fst (Cost_bprop SumSquared_init [[1, 3], [2, 5]] [[0, 1], [4, 5]]) ! 1 ! 0 = - 2
   \<and> ((\<lambda>v. hd (fst (Cost_call SumSquared_init [[1, 3], [v, 5]] [[0, 1], [4, 5]])) ! 0)
        has_real_derivative - 2) (at 2)
   \<and> hd (fst (Cost_call SumSquared_init [[1, 3], [7, 5]] [[0, 1], [4, 5]])) ! 1 = 2"
  using SumSquared_loss_gradient [of 2 2 "[[1, 3], [2, 5]]" "[[0, 1], [4, 5]]" 1 0 7]
  by (simp add: rect_def lessThan_Suc numeral_2_eq_2 Cost_bprop_def SumSquared_init_def ew2_def rows_to_def)

section \<open>Accuracy and Misclassification are complementary\<close>

lemma be_argmax_rect:
  "rect n b x \<Longrightarrow> 0 < n \<Longrightarrow> be_argmax x = [map (\<lambda>j. real (argmax_list (col x j))) [0..<b]]"
  by (simp add: be_argmax_def rect_ncols)

lemma mean_all_row: "mean_all [map f [0..<b]] = sum_list (map f [0..<b]) / real b"
  by (simp add: mean_all_def)

lemma Misclassification_outputs_col:
  assumes "rect n b y" "rect n b t" "0 < n"
  shows "Misclassification_outputs (snd (Misclassification_call self y t))
       = [map (\<lambda>j. b2r (argmax_list (col y j) \<noteq> argmax_list (col t j))) [0..<b]]"
  using assms
  by (simp add: Misclassification_call_def Misclassification_outputs_def Let_def be_argmax_rect
      be_not_equal_def ew2_row)

lemma Accuracy_outputs_col:
  assumes "rect n b y" "rect n b t" "0 < n"
  shows "Accuracy_outputs (snd (Accuracy_call self y t))
       = [map (\<lambda>j. b2r (argmax_list (col y j) = argmax_list (col t j))) [0..<b]]"
  using assms
  by (simp add: Accuracy_call_def Accuracy_outputs_def Let_def be_argmax_rect
      be_equal_def ew2_row)

lemma Misclassification_call_fst:
  "fst (Misclassification_call self y t)
     = mean_all (Misclassification_outputs (snd (Misclassification_call self y t)))"
  by (simp add: Misclassification_call_def Let_def)

lemma Accuracy_call_fst:
  "fst (Accuracy_call self y t) = mean_all (Accuracy_outputs (snd (Accuracy_call self y t)))"
  by (simp add: Accuracy_call_def Let_def)

text \<open>
  C3. For a prediction tensor \<open>y\<close> and a target tensor \<open>t\<close> of the same shape, with at least
  one class and at least one example (one-hot encoded or not), the value returned by
  \<open>Accuracy.__call__\<close> and the value returned by \<open>Misclassification.__call__\<close> add up
  to 1.
\<close>

theorem Accuracy_Misclassification_complement:
  assumes "rect n b y" and "rect n b t" and "0 < n" and "0 < b"
  shows "fst (Accuracy_call acc y t) + fst (Misclassification_call mis y t) = 1"
proof -
  let ?e = "\<lambda>j. b2r (argmax_list (col y j) = argmax_list (col t j))"
  let ?d = "\<lambda>j. b2r (argmax_list (col y j) \<noteq> argmax_list (col t j))"
  have "sum_list (map ?e [0..<b]) + sum_list (map ?d [0..<b])
      = sum_list (map (\<lambda>j. ?e j + ?d j) [0..<b])"
    by (simp add: sum_list_addf)
  also have "\<dots> = sum_list (map (\<lambda>j. 1) [0..<b])"
  proof -
    have "?e j + ?d j = 1" for j by (simp add: b2r_def)
    then show ?thesis by simp
  qed
  also have "\<dots> = real b"
    by (simp add: sum_list_triv)
  finally have "(sum_list (map ?e [0..<b]) + sum_list (map ?d [0..<b])) / real b = 1"
    using assms(4) by simp
  then show ?thesis
    by (simp add: Accuracy_call_fst Misclassification_call_fst
        Accuracy_outputs_col [OF assms(1,2,3)] Misclassification_outputs_col [OF assms(1,2,3)]
        mean_all_row add_divide_distrib)
qed

theorem Accuracy_Misclassification_complement_witness:
  "fst (Accuracy_call (Accuracy_init \<lparr>bsz = 3, log_floor = 1 / 1000000\<rparr>)
          [[1, 0, 0], [0, 1, 1]] [[1, 1, 0], [0, 0, 1]]) = 2 / 3
   \<and> fst (Misclassification_call (Misclassification_init \<lparr>bsz = 3, log_floor = 1 / 1000000\<rparr>)
          [[1, 0, 0], [0, 1, 1]] [[1, 1, 0], [0, 0, 1]]) = 1 / 3"
  using Accuracy_Misclassification_complement [of 2 3 "[[1, 0, 0], [0, 1, 1]]"
      "[[1, 1, 0], [0, 0, 1]]" "Accuracy_init \<lparr>bsz = 3, log_floor = 1 / 1000000\<rparr>"
      "Misclassification_init \<lparr>bsz = 3, log_floor = 1 / 1000000\<rparr>"]
  by (simp add: rect_def Misclassification_call_def Misclassification_outputs_def Let_def
      be_argmax_def be_not_equal_def ew2_def rows_to_def ncols_def col_def mean_all_def b2r_def
      upt_rec [of 0] upt_rec [of 1] upt_rec [of 2])

section \<open>TopKMisclassification\<close>

lemma be_sum_bcast:
  assumes "rect n b x" "0 < n"
  shows "be_sum (ew2 f x [map g [0..<b]])
       = [map (\<lambda>j. sum_list (map (\<lambda>v. f v (g j)) (col x j))) [0..<b]]"
  using assms
  by (simp add: be_sum_def ncols_ew2_bcast [where n = n and b = b] col_ew2_bcast [where n = n and b = b])

lemma be_max_rect:
  "rect n b x \<Longrightarrow> 0 < n \<Longrightarrow> be_max x = [map (\<lambda>j. Max (set (col x j))) [0..<b]]"
  by (simp add: be_max_def rect_ncols)

lemma list3_updates:
  "length xs = 3 \<Longrightarrow> xs[0 := a, 2 := c, 1 := d, 0 := e] = [e, d, c]"
  by (cases xs; cases "tl xs"; cases "tl (tl xs)") auto

lemma safelog_row: "safelog be [map g js] = [map (\<lambda>j. ln (max (g j) (log_floor be))) js]"
  by (simp add: safelog_def ew_def)

lemma TopKMisclassification_outputs:
  assumes "rect n b y" "rect n b t" "0 < n" "length (outputs self) = 3"
  shows "outputs (snd (TopKMisclassification_call be self y t)) =
    [map (\<lambda>j. - ln (max (col_correctProb (col y j) (col t j)) (log_floor be))) [0..<b],
     map (\<lambda>j. col_top1 (col y j) (col_correctProb (col y j) (col t j))) [0..<b],
     map (\<lambda>j. col_topk (k self) (col y j) (col_correctProb (col y j) (col t j))) [0..<b]]"
proof -
  have r: "rect n b (ew2 (*) y t)" using assms by (simp add: ew2_rect)
  have cp: "be_sum (ew2 (*) y t) = [map (\<lambda>j. col_correctProb (col y j) (col t j)) [0..<b]]"
    using assms by (simp add: be_sum_rect [OF r] col_ew2 [where n = n and b = b] col_correctProb_def)
  have l: "0 < length (outputs self)" "1 < length (outputs self)" "2 < length (outputs self)"
    using assms(4) by simp_all
  let ?A = "map (\<lambda>j. col_correctProb (col y j) (col t j)) [0..<b]"
  let ?E = "map (\<lambda>j. - ln (max (col_correctProb (col y j) (col t j)) (log_floor be))) [0..<b]"
  let ?D = "map (\<lambda>j. col_top1 (col y j) (col_correctProb (col y j) (col t j))) [0..<b]"
  let ?C = "map (\<lambda>j. col_topk (k self) (col y j) (col_correctProb (col y j) (col t j))) [0..<b]"
  have "outputs (snd (TopKMisclassification_call be self y t))
      = (outputs self)[0 := ?A, 2 := ?C, 1 := ?D, 0 := ?E]"
    using l
    by (simp add: TopKMisclassification_call_def Let_def assign_view_def view_def cp
        be_gt_def be_equal_def be_le_def be_sum_bcast [OF assms(1,3)] be_max_rect [OF assms(1,3)]
        ew_row ew2_row safelog_row
        col_top1_def col_topk_def col_nSlots_def col_nEq_def)
  also have "\<dots> = [?E, ?D, ?C]"
    by (rule list3_updates [OF assms(4)])
  finally show ?thesis .
qed


lemma sum_list_b2r: "sum_list (map (\<lambda>v. b2r (P v)) xs) = real (length (filter P xs))"
  by (induction xs) (simp_all add: b2r_def)

lemma col_nEq_count: "col_nEq yc p = real (length (filter (\<lambda>v. v = p) yc))"
  by (simp add: col_nEq_def sum_list_b2r)

lemma col_nSlots_count:
  "col_nSlots kk yc p = real_of_int (kk - int (length (filter (\<lambda>v. p < v) yc)))"
  by (simp add: col_nSlots_def sum_list_b2r)

lemma sum_list_onehot:
  fixes yc :: "real list"
  shows "c < length yc \<Longrightarrow> sum_list (map2 (*) yc ((replicate (length yc) 0)[c := 1])) = yc ! c"
proof (induction yc arbitrary: c)
  case Nil
  then show ?case by simp
next
  case (Cons a yc)
  have z: "sum_list (map2 (*) yc (replicate (length yc) 0)) = 0"
    by (induction yc) simp_all
  show ?case
  proof (cases c)
    case 0
    then show ?thesis using z by simp
  next
    case (Suc c')
    then show ?thesis using Cons by simp
  qed
qed

lemma col_correctProb_onehot:
  "onehot_at c tc \<Longrightarrow> length yc = length tc \<Longrightarrow> col_correctProb yc tc = yc ! c"
  using sum_list_onehot [of c yc] by (simp add: col_correctProb_def onehot_at_def)

lemma onehot_iff: "onehot tc \<longleftrightarrow> (\<exists>c. onehot_at c tc)"
  by (auto simp: onehot_def list_ex_iff onehot_at_def)

lemma argmax_list_max:
  "xs \<noteq> [] \<Longrightarrow> argmax_list xs < length xs \<and> xs ! argmax_list xs = Max (set xs)"
proof (induction xs)
  case Nil
  then show ?case by simp
next
  case (Cons x xs)
  show ?case
  proof (cases "list_all (\<lambda>v. v \<le> x) xs")
    case True
    then have "Max (set (x # xs)) = x"
      by (intro Max_eqI) (auto simp: list_all_iff)
    then show ?thesis using True by simp
  next
    case False
    then have ne: "xs \<noteq> []" by auto
    from False obtain v where v: "v \<in> set xs" "x < v"
      by (auto simp: list_all_iff not_le)
    have "v \<le> Max (set xs)"
      using v(1) by (intro Max_ge) simp_all
    then have "x < Max (set xs)"
      using v(2) by linarith
    then have "Max (set (x # xs)) = Max (set xs)"
      using ne by (simp add: max_def)
    then show ?thesis using False Cons.IH [OF ne] by simp
  qed
qed

lemma argmax_list_distinct:
  assumes "distinct xs" "i < length xs"
  shows "argmax_list xs = i \<longleftrightarrow> xs ! i = Max (set xs)"
proof -
  have ne: "xs \<noteq> []" using assms by auto
  show ?thesis
    using argmax_list_max [OF ne] assms nth_eq_iff_index_eq [of xs "argmax_list xs" i]
    by auto
qed

lemma argmax_list_onehot:
  assumes "onehot_at c tc"
  shows "argmax_list tc = c"
proof -
  have c: "c < length tc" and tc: "tc = (replicate (length tc) 0)[c := 1]"
    using assms by (simp_all add: onehot_at_def)
  have ne: "tc \<noteq> []" using c by auto
  have nth: "tc ! i = (if i = c then 1 else 0)" if "i < length tc" for i
    using that c by (subst tc) (simp add: nth_list_update)
  have "1 \<in> set tc" using nth [OF c] c by (metis nth_mem)
  moreover have "v \<le> 1" if "v \<in> set tc" for v
    using that nth by (auto simp: in_set_conv_nth)
  ultimately have "Max (set tc) = 1" by (intro Max_eqI) auto
  then have "tc ! argmax_list tc = 1" using argmax_list_max [OF ne] by simp
  then show ?thesis using nth [of "argmax_list tc"] argmax_list_max [OF ne]
    by (auto split: if_splits)
qed


lemma TopKMisclassification_col:
  assumes "rect n b y" "rect n b t" "length (outputs self) = 3" "j < b" "onehot_at c (col t j)"
  shows "hd (topk (snd (TopKMisclassification_call be self y t))) ! j
           = col_topk (k self) (col y j) (col y j ! c)"
    and "hd (top1 (snd (TopKMisclassification_call be self y t))) ! j
           = col_top1 (col y j) (col y j ! c)"
proof -
  have c: "c < n" using assms by (simp add: onehot_at_def rect_def)
  then have n: "0 < n" by simp
  have l: "length (col y j) = length (col t j)" using assms by (simp add: rect_def)
  have cp: "col_correctProb (col y j) (col t j) = col y j ! c"
    using assms(5) l by (rule col_correctProb_onehot)
  show "hd (topk (snd (TopKMisclassification_call be self y t))) ! j
           = col_topk (k self) (col y j) (col y j ! c)"
    using assms(4) by (simp add: view_def TopKMisclassification_outputs [OF assms(1,2) n assms(3)] cp)
  show "hd (top1 (snd (TopKMisclassification_call be self y t))) ! j
           = col_top1 (col y j) (col y j ! c)"
    using assms(4) by (simp add: view_def TopKMisclassification_outputs [OF assms(1,2) n assms(3)] cp)
qed

lemma nEq_of_pos: "c < length yc \<Longrightarrow> 1 \<le> nEq_of yc c"
proof -
  assume "c < length yc"
  then have "yc ! c \<in> set (filter (\<lambda>v. v = yc ! c) yc)" by simp
  then have "filter (\<lambda>v. v = yc ! c) yc \<noteq> []" by force
  then show ?thesis by (simp add: nEq_of_def Suc_le_eq)
qed

lemma col_topk_cases:
  assumes "c < length yc"
  shows "let nSlots = nSlots_of kk yc c; nEq = nEq_of yc c; v = col_topk kk yc (yc ! c)
         in (nSlots \<le> 0 \<longrightarrow> v = 1)
          \<and> (0 < nSlots \<and> int nEq \<le> nSlots \<longrightarrow> v = 0)
          \<and> (0 < nSlots \<and> nSlots < int nEq \<longrightarrow> v = 1 - real_of_int nSlots / real nEq)
          \<and> 0 \<le> v \<and> v \<le> 1"
proof -
  define S where "S = nSlots_of kk yc c"
  define E where "E = nEq_of yc c"
  have E: "1 \<le> E" unfolding E_def using assms by (rule nEq_of_pos)
  have s: "col_nSlots kk yc (yc ! c) = real_of_int S"
    by (simp add: col_nSlots_count S_def nSlots_of_def)
  have e: "col_nEq yc (yc ! c) = real E"
    by (simp add: col_nEq_count E_def nEq_of_def)
  have le: "real E \<le> real_of_int S \<longleftrightarrow> int E \<le> S"
    by (metis of_int_le_iff of_int_of_nat_eq)
  have v: "col_topk kk yc (yc ! c)
       = 1 - b2r (0 < S) * (b2r (int E \<le> S) * (1 - real_of_int S / real E) + real_of_int S / real E)"
    unfolding col_topk_def s e le by simp
  have 1: "col_topk kk yc (yc ! c) = 1" if "S \<le> 0"
    using that by (simp add: v b2r_def)
  have 2: "col_topk kk yc (yc ! c) = 0" if "0 < S" "int E \<le> S"
    using that by (simp add: v b2r_def)
  have 3: "col_topk kk yc (yc ! c) = 1 - real_of_int S / real E" if "0 < S" "S < int E"
    using that by (simp add: v b2r_def)
  have 4: "0 \<le> col_topk kk yc (yc ! c) \<and> col_topk kk yc (yc ! c) \<le> 1"
  proof (cases "S \<le> 0")
    case True
    then show ?thesis using 1 by simp
  next
    case False
    show ?thesis
    proof (cases "int E \<le> S")
      case True
      then show ?thesis using 2 False by simp
    next
      case b: False
      then have "real_of_int S < real E" by linarith
      moreover have "0 < real_of_int S" using False by simp
      ultimately have "0 \<le> real_of_int S / real E" "real_of_int S / real E \<le> 1"
        using E by (simp_all add: divide_le_eq)
      then show ?thesis using 3 False b by simp
    qed
  qed
  show ?thesis
    using 1 2 3 4 by (simp add: Let_def S_def [symmetric] E_def [symmetric])
qed

text \<open>
  C10. For an example (column \<open>j\<close>) whose target column is one-hot with correct class \<open>c\<close>,
  let \<open>nSlots\<close> be \<open>k\<close> minus the number of classes with a probability strictly greater
  than that of the correct class, and \<open>nEq\<close> the number of classes with a probability equal
  to it. Then \<open>nEq \<ge> 1\<close>, and the top-k value of the example stored by
  \<open>TopKMisclassification.__call__\<close> is 1 when \<open>nSlots \<le> 0\<close>, is 0 when \<open>0 < nSlots\<close> and
  \<open>nEq \<le> nSlots\<close>, and is \<open>1 - nSlots / nEq\<close> when \<open>0 < nSlots < nEq\<close>; it always lies
  in \<open>[0, 1]\<close>.
\<close>

theorem TopKMisclassification_topk_cases:
  assumes "rect n b y" and "rect n b t" and "length (outputs self) = 3" and "j < b"
    and "onehot_at c (col t j)"
  shows "let nSlots = nSlots_of (k self) (col y j) c; nEq = nEq_of (col y j) c;
             v = hd (topk (snd (TopKMisclassification_call be self y t))) ! j
         in 1 \<le> nEq
          \<and> (nSlots \<le> 0 \<longrightarrow> v = 1)
          \<and> (0 < nSlots \<and> int nEq \<le> nSlots \<longrightarrow> v = 0)
          \<and> (0 < nSlots \<and> nSlots < int nEq \<longrightarrow> v = 1 - real_of_int nSlots / real nEq)
          \<and> 0 \<le> v \<and> v \<le> 1"
proof -
  have c: "c < length (col y j)" using assms by (simp add: onehot_at_def rect_def)
  show ?thesis
    unfolding TopKMisclassification_col(1) [OF assms]
    using col_topk_cases [OF c, of "k self"] nEq_of_pos [OF c]
    by (simp add: Let_def)
qed

text \<open>
  C4. For an example whose target column is one-hot with correct class \<open>c\<close> and whose
  prediction column has exactly two entries equal to its maximum, one of them in row \<open>c\<close>,
  the top-1 value of the example stored by \<open>TopKMisclassification.__call__\<close> is 0.5.
\<close>

theorem TopKMisclassification_top1_tie:
  assumes "rect n b y" and "rect n b t" and "length (outputs self) = 3" and "j < b"
    and "onehot_at c (col t j)"
    and "col y j ! c = Max (set (col y j))"
    and "length (filter (\<lambda>v. v = Max (set (col y j))) (col y j)) = 2"
  shows "hd (top1 (snd (TopKMisclassification_call be self y t))) ! j = 1 / 2"
  unfolding TopKMisclassification_col(2) [OF assms(1-5)]
  using assms(6,7) by (simp add: col_top1_def col_nEq_count b2r_def)


theorem TopKMisclassification_topk_cases_witness:
  "hd (topk (snd (TopKMisclassification_call \<lparr>bsz = 1, log_floor = 1 / 1000000\<rparr>
        (TopKMisclassification_init \<lparr>bsz = 1, log_floor = 1 / 1000000\<rparr> 1)
        [[2 / 5], [2 / 5], [1 / 5]] [[0], [1], [0]]))) ! 0 = 1 / 2"
  using TopKMisclassification_topk_cases [of 3 1 "[[2 / 5], [2 / 5], [1 / 5]]" "[[0], [1], [0]]"
      "TopKMisclassification_init \<lparr>bsz = 1, log_floor = 1 / 1000000\<rparr> 1" 0 1
      "\<lparr>bsz = 1, log_floor = 1 / 1000000\<rparr>"]
  by (simp add: rect_def TopKMisclassification_init_def iobuf_def onehot_at_def col_def
      nSlots_of_def nEq_of_def Let_def)

theorem TopKMisclassification_top1_tie_witness:
  "hd (top1 (snd (TopKMisclassification_call \<lparr>bsz = 1, log_floor = 1 / 1000000\<rparr>
        (TopKMisclassification_init \<lparr>bsz = 1, log_floor = 1 / 1000000\<rparr> 1)
        [[2 / 5], [2 / 5], [1 / 5]] [[0], [1], [0]]))) ! 0 = 1 / 2"
  using TopKMisclassification_top1_tie [of 3 1 "[[2 / 5], [2 / 5], [1 / 5]]" "[[0], [1], [0]]"
      "TopKMisclassification_init \<lparr>bsz = 1, log_floor = 1 / 1000000\<rparr> 1" 0 1
      "\<lparr>bsz = 1, log_floor = 1 / 1000000\<rparr>"]
  by (simp add: rect_def TopKMisclassification_init_def iobuf_def onehot_at_def col_def)

lemma count_eq_distinct:
  assumes "distinct xs" "i < length xs"
  shows "length (filter (\<lambda>v. v = xs ! i) xs) = 1"
proof -
  have "{v. v = xs ! i} \<inter> set xs = {xs ! i}" using assms by auto
  then show ?thesis using assms by (simp add: distinct_length_filter)
qed

lemma col_distinct_onehot:
  assumes "distinct yc" "onehot_at c tc" "length yc = length tc"
  shows "col_top1 yc (col_correctProb yc tc) = b2r (argmax_list yc \<noteq> argmax_list tc)"
    and "col_topk 1 yc (col_correctProb yc tc) = b2r (argmax_list yc \<noteq> argmax_list tc)"
proof -
  have c: "c < length yc" using assms by (simp add: onehot_at_def)
  have ne: "yc \<noteq> []" using c by auto
  have cp: "col_correctProb yc tc = yc ! c" using assms(2,3) by (rule col_correctProb_onehot)
  have am: "argmax_list tc = c" using assms(2) by (rule argmax_list_onehot)
  have ay: "argmax_list yc = c \<longleftrightarrow> yc ! c = Max (set yc)"
    using assms(1) c by (rule argmax_list_distinct)
  have e: "col_nEq yc (yc ! c) = 1"
    by (simp add: col_nEq_count count_eq_distinct [OF assms(1) c])
  show "col_top1 yc (col_correctProb yc tc) = b2r (argmax_list yc \<noteq> argmax_list tc)"
    using ay by (auto simp add: col_top1_def cp am e b2r_def)
  show "col_topk 1 yc (col_correctProb yc tc) = b2r (argmax_list yc \<noteq> argmax_list tc)"
  proof (cases "yc ! c = Max (set yc)")
    case True
    have "filter (\<lambda>v. yc ! c < v) yc = []"
      unfolding True by (auto simp: filter_empty_conv not_less)
    then have "col_nSlots 1 yc (yc ! c) = 1" by (simp add: col_nSlots_count)
    then have "col_topk 1 yc (yc ! c) = 0" by (simp add: col_topk_def e b2r_def)
    then show ?thesis using True ay by (simp add: cp am b2r_def)
  next
    case False
    have "yc ! c \<le> Max (set yc)" using c by (intro Max_ge) simp_all
    then have "yc ! c < Max (set yc)" using False by simp
    moreover have "Max (set yc) \<in> set yc" using ne by (intro Max_in) simp_all
    ultimately have "filter (\<lambda>v. yc ! c < v) yc \<noteq> []"
      by (auto simp: filter_empty_conv)
    then have "1 \<le> length (filter (\<lambda>v. yc ! c < v) yc)" by (simp add: Suc_le_eq)
    then have "col_nSlots 1 yc (yc ! c) \<le> 0" by (simp add: col_nSlots_count)
    then have "col_topk 1 yc (yc ! c) = 1" by (simp add: col_topk_def b2r_def)
    then show ?thesis using False ay by (simp add: cp am b2r_def)
  qed
qed

text \<open>
  C5. For a one-hot target tensor \<open>t\<close> and a prediction tensor \<open>y\<close> of the same shape
  without equal entries in any column, the per-example top-1 values stored by a
  \<open>TopKMisclassification\<close> object constructed with \<open>k = 1\<close> are the per-example values
  stored by \<open>Misclassification.__call__\<close> on the same inputs; so are its top-k values.
\<close>

theorem TopK1_matches_Misclassification:
  assumes "rect n b y" and "rect n b t" and "0 < n"
    and "onehot_tensor t" and "list_all (\<lambda>j. distinct (col y j)) [0..<b]"
  shows "top1 (snd (TopKMisclassification_call be (TopKMisclassification_init be 1) y t))
           = Misclassification_outputs (snd (Misclassification_call mis y t))
       \<and> topk (snd (TopKMisclassification_call be (TopKMisclassification_init be 1) y t))
           = Misclassification_outputs (snd (Misclassification_call mis y t))"
proof -
  have l3: "length (outputs (TopKMisclassification_init be 1)) = 3"
    by (simp add: TopKMisclassification_init_def iobuf_def)
  have k1: "k (TopKMisclassification_init be 1) = 1"
    by (simp add: TopKMisclassification_init_def)
  have col: "col_top1 (col y j) (col_correctProb (col y j) (col t j))
               = b2r (argmax_list (col y j) \<noteq> argmax_list (col t j))
           \<and> col_topk 1 (col y j) (col_correctProb (col y j) (col t j))
               = b2r (argmax_list (col y j) \<noteq> argmax_list (col t j))" if "j < b" for j
  proof -
    have "onehot (col t j)"
      using assms(2,3,4) that by (simp add: onehot_tensor_def rect_ncols list_all_iff)
    then obtain c where c: "onehot_at c (col t j)" by (auto simp: onehot_iff)
    have d: "distinct (col y j)" using assms(5) that by (simp add: list_all_iff)
    have l: "length (col y j) = length (col t j)" using assms by (simp add: rect_def)
    show ?thesis using col_distinct_onehot [OF d c l] by simp
  qed
  show ?thesis
    unfolding view_def TopKMisclassification_outputs [OF assms(1,2,3) l3]
      Misclassification_outputs_col [OF assms(1,2,3)] k1
    using col by simp
qed

theorem TopK1_matches_Misclassification_witness:
  "top1 (snd (TopKMisclassification_call \<lparr>bsz = 2, log_floor = 1 / 1000000\<rparr>
        (TopKMisclassification_init \<lparr>bsz = 2, log_floor = 1 / 1000000\<rparr> 1)
        [[3 / 5, 1 / 10], [3 / 10, 7 / 10], [1 / 10, 1 / 5]] [[1, 1], [0, 0], [0, 0]]))
     = [[0, 1]]
   \<and> Misclassification_outputs (snd (Misclassification_call
        (Misclassification_init \<lparr>bsz = 2, log_floor = 1 / 1000000\<rparr>)
        [[3 / 5, 1 / 10], [3 / 10, 7 / 10], [1 / 10, 1 / 5]] [[1, 1], [0, 0], [0, 0]]))
     = [[0, 1]]"
  using TopK1_matches_Misclassification [of 3 2
      "[[3 / 5, 1 / 10], [3 / 10, 7 / 10], [1 / 10, 1 / 5]]" "[[1, 1], [0, 0], [0, 0]]"
      "\<lparr>bsz = 2, log_floor = 1 / 1000000\<rparr>"
      "Misclassification_init \<lparr>bsz = 2, log_floor = 1 / 1000000\<rparr>"]
  by (simp add: rect_def onehot_tensor_def onehot_def onehot_at_def ncols_def col_def
      Misclassification_call_def Misclassification_outputs_def Let_def
      be_argmax_def be_not_equal_def ew2_def rows_to_def b2r_def numeral_2_eq_2)

end
